theory Spec2Isabelle
  imports Main
begin

section \<open>Cell values of the input table\<close>

text \<open>
  A cell of the table that \<open>parse_csv\<close> loads is a Python object: \<open>None\<close> (what
  \<open>row.get\<close> gives for a missing column), the float NaN (an empty CSV field), a string,
  an integer, a boolean or another float. The program never does arithmetic on a float;
  it only takes its \<open>str()\<close> and its \<open>int()\<close>. A float other than NaN is therefore
  represented by these two observations: its text, and its truncation (\<open>None\<close> where
  \<open>int()\<close> raises, as for an infinity). A character is a code point below 256.
\<close>

datatype pyval =
    PyNone
  | NaN
  | Str string
  | IntV int
  | FloatV string "int option"
  | BoolV bool

text \<open>\<open>pd.notna(v)\<close> and \<open>pd.isna(v)\<close> on a scalar.\<close>

fun notna :: "pyval \<Rightarrow> bool" where
  "notna PyNone = False"
| "notna NaN = False"
| "notna _ = True"

definition isna :: "pyval \<Rightarrow> bool" where
  "isna v = (\<not> notna v)"

text \<open>A row is a pandas Series: a mapping from column names to cells.\<close>

type_synonym row = "string \<rightharpoonup> pyval"

text \<open>\<open>row.get(key)\<close> (default \<open>None\<close>) and \<open>row.get(key, default)\<close>.\<close>

definition row_get :: "row \<Rightarrow> string \<Rightarrow> pyval" where
  "row_get row key = (case row key of None \<Rightarrow> PyNone | Some v \<Rightarrow> v)"

definition row_get_default :: "row \<Rightarrow> string \<Rightarrow> pyval \<Rightarrow> pyval" where
  "row_get_default row key d = (case row key of None \<Rightarrow> d | Some v \<Rightarrow> v)"

section \<open>Decimal text of integers\<close>

definition digit_char :: "nat \<Rightarrow> char" where
  "digit_char n = ''0123456789'' ! (n mod 10)"

function str_nat :: "nat \<Rightarrow> string" where
  "str_nat n = (if n < 10 then [digit_char n] else str_nat (n div 10) @ [digit_char (n mod 10)])"
  by pat_completeness auto
termination
  by (relation "measure id") auto

declare str_nat.simps [simp del]

definition str_int :: "int \<Rightarrow> string" where
  "str_int i = (if i < 0 then CHR ''-'' # str_nat (nat (- i)) else str_nat (nat i))"

text \<open>\<open>str(v)\<close>, which is also what an f-string field \<open>{v}\<close> inserts.\<close>

fun py_str :: "pyval \<Rightarrow> string" where
  "py_str PyNone = ''None''"
| "py_str NaN = ''nan''"
| "py_str (Str s) = s"
| "py_str (IntV i) = str_int i"
| "py_str (FloatV s _) = s"
| "py_str (BoolV b) = (if b then ''True'' else ''False'')"

section \<open>Identifier synthesis\<close>

text \<open>
  Lines 94--98 of \<open>create_dublin_core_graph\<close> and lines 175--179 of
  \<open>create_dcat_graph\<close> are the same text; \<open>idx\<close> is the label that \<open>df.iterrows()\<close>
  yields, which for the table loaded by \<open>parse_csv\<close> is the row's position 0, 1, 2, ...
\<close>

definition node_alias_of :: "row \<Rightarrow> pyval" where
  "node_alias_of row = row_get_default row ''node_alias'' (Str [])"

definition dataset_uri :: "nat \<Rightarrow> row \<Rightarrow> string" where
  "dataset_uri idx row =
     (let node_alias = node_alias_of row in
      if notna node_alias then ''https://data.gov.in'' @ py_str node_alias
      else ''https://data.gov.in/dataset/'' @ str_nat idx)"

section \<open>String operations of the Python runtime\<close>

text \<open>\<open>c.isspace()\<close> and \<open>c.lower()\<close> for a code point below 256.\<close>

definition isspace :: "char \<Rightarrow> bool" where
  "isspace c = (let n = of_char c :: nat in
     (9 \<le> n \<and> n \<le> 13) \<or> (28 \<le> n \<and> n \<le> 32) \<or> n = 133 \<or> n = 160)"

definition lower_char :: "char \<Rightarrow> char" where
  "lower_char c = (let n = of_char c :: nat in
     if (65 \<le> n \<and> n \<le> 90) \<or> (192 \<le> n \<and> n \<le> 222 \<and> n \<noteq> 215)
     then char_of (n + 32) else c)"

definition lower :: "string \<Rightarrow> string" where
  "lower s = map lower_char s"

definition strip :: "string \<Rightarrow> string" where
  "strip s = rev (dropWhile isspace (rev (dropWhile isspace s)))"

text \<open>\<open>s.split(sep)\<close> for a separator of one character.\<close>

fun split_on :: "char \<Rightarrow> string \<Rightarrow> string list" where
  "split_on sep [] = [[]]"
| "split_on sep (c # cs) =
     (if c = sep then [] # split_on sep cs
      else (case split_on sep cs of [] \<Rightarrow> [[c]] | p # ps \<Rightarrow> (c # p) # ps))"

definition startswith :: "string \<Rightarrow> string \<Rightarrow> bool" where
  "startswith s p = (take (length p) s = p)"

definition digit_of :: "char \<Rightarrow> nat option" where
  "digit_of c = (let n = of_char c :: nat in if 48 \<le> n \<and> n \<le> 57 then Some (n - 48) else None)"

text \<open>
  \<open>int(v)\<close>; \<open>None\<close> stands for the exception it raises. On a string: surrounding white
  space is dropped, one sign is allowed, then decimal digits, where single underscores may
  separate digits.
\<close>

fun int_digits :: "nat \<Rightarrow> string \<Rightarrow> nat option" where
  "int_digits acc [] = Some acc"
| "int_digits acc (c # cs) =
     (if c = CHR ''_'' then
        (case cs of
           [] \<Rightarrow> None
         | d # ds \<Rightarrow> (case digit_of d of None \<Rightarrow> None | Some k \<Rightarrow> int_digits (10 * acc + k) ds))
      else (case digit_of c of None \<Rightarrow> None | Some k \<Rightarrow> int_digits (10 * acc + k) cs))"

definition int_unsigned :: "string \<Rightarrow> nat option" where
  "int_unsigned s =
     (case s of
        [] \<Rightarrow> None
      | c # cs \<Rightarrow> (case digit_of c of None \<Rightarrow> None | Some k \<Rightarrow> int_digits k cs))"

definition int_of_string :: "string \<Rightarrow> int option" where
  "int_of_string s =
     (case strip s of
        [] \<Rightarrow> None
      | c # cs \<Rightarrow>
          if c = CHR ''-'' then map_option (\<lambda>n. - int n) (int_unsigned cs)
          else if c = CHR ''+'' then map_option int (int_unsigned cs)
          else map_option int (int_unsigned (c # cs)))"

fun py_int :: "pyval \<Rightarrow> int option" where
  "py_int PyNone = None"
| "py_int NaN = None"
| "py_int (Str s) = int_of_string s"
| "py_int (IntV i) = Some i"
| "py_int (FloatV _ t) = t"
| "py_int (BoolV b) = Some (if b then 1 else 0)"

section \<open>Field normalizers\<close>

definition freq_mapping :: "string \<rightharpoonup> string" where
  "freq_mapping = map_of
     [(''daily'', ''http://purl.org/cld/freq/daily''),
      (''weekly'', ''http://purl.org/cld/freq/weekly''),
      (''monthly'', ''http://purl.org/cld/freq/monthly''),
      (''yearly'', ''http://purl.org/cld/freq/annual''),
      (''quarterly'', ''http://purl.org/cld/freq/quarterly'')]"

definition normalize_frequency :: "pyval \<Rightarrow> string option" where
  "normalize_frequency freq =
     (if notna freq then
        (let freq_lower = strip (lower (py_str freq)) in
         Some (case freq_mapping freq_lower of None \<Rightarrow> freq_lower | Some u \<Rightarrow> u))
      else None)"

subsection \<open>\<open>datetime.strptime\<close> and \<open>strftime\<close>\<close>

text \<open>
  \<open>strptime\<close> turns the format into a regular expression, one group per directive, and
  takes the first match that the backtracking matcher finds at the start of the text; the
  text must then be used up, and the groups must be a date of the calendar. The matcher is
  the list of all matches in the order of the search.
\<close>

datatype directive = Dir char | Lit char

fun parse_format :: "string \<Rightarrow> directive list" where
  "parse_format [] = []"
| "parse_format [c] = [Lit c]"
| "parse_format (c # d # cs) =
     (if c = CHR ''%'' then Dir d # parse_format cs else Lit c # parse_format (d # cs))"

definition cls :: "string \<Rightarrow> char \<Rightarrow> bool" where
  "cls s c = (c \<in> set s)"

text \<open>One alternative of a group: a sequence of character classes.\<close>

definition alt :: "(char \<Rightarrow> bool) list \<Rightarrow> string \<Rightarrow> (string \<times> string) list" where
  "alt ps s =
     (if length ps \<le> length s \<and> list_all2 (\<lambda>p c. p c) ps (take (length ps) s)
      then [(take (length ps) s, drop (length ps) s)] else [])"

text \<open>
  The groups of \<open>_strptime\<close>:
  \<^verbatim>\<open>%d  3[0-1]|[1-2]\d|0[1-9]|[1-9]| [1-9]\<close>,
  \<^verbatim>\<open>%m  1[0-2]|0[1-9]|[1-9]\<close>,
  \<^verbatim>\<open>%Y  \d\d\d\d\<close>.
\<close>

definition group_alts :: "char \<Rightarrow> string \<Rightarrow> (string \<times> string) list" where
  "group_alts d s =
     (if d = CHR ''d'' then
        alt [cls ''3'', cls ''01''] s @ alt [cls ''12'', cls ''0123456789''] s
        @ alt [cls ''0'', cls ''123456789''] s @ alt [cls ''123456789''] s
        @ alt [cls '' '', cls ''123456789''] s
      else if d = CHR ''m'' then
        alt [cls ''1'', cls ''012''] s @ alt [cls ''0'', cls ''123456789''] s
        @ alt [cls ''123456789''] s
      else if d = CHR ''Y'' then
        alt [cls ''0123456789'', cls ''0123456789'', cls ''0123456789'', cls ''0123456789''] s
      else [])"

fun re_match :: "directive list \<Rightarrow> string \<Rightarrow> ((char \<times> string) list \<times> string) list" where
  "re_match [] s = [([], s)]"
| "re_match (Lit c # ts) s =
     (case s of [] \<Rightarrow> [] | x # xs \<Rightarrow> if x = c then re_match ts xs else [])"
| "re_match (Dir d # ts) s =
     concat (map (\<lambda>(txt, r). map (\<lambda>(gs, r'). ((d, txt) # gs, r')) (re_match ts r))
                 (group_alts d s))"

text \<open>The number that \<open>int()\<close> reads from the text of a group (digits, or a space and a digit).\<close>

definition group_val :: "string \<Rightarrow> nat" where
  "group_val txt = foldl (\<lambda>acc c. case digit_of c of None \<Rightarrow> acc | Some k \<Rightarrow> 10 * acc + k) 0 txt"

definition is_leap :: "nat \<Rightarrow> bool" where
  "is_leap y = (y mod 4 = 0 \<and> (y mod 100 \<noteq> 0 \<or> y mod 400 = 0))"

definition days_in_month :: "nat \<Rightarrow> nat \<Rightarrow> nat" where
  "days_in_month y m =
     (if m = 2 then (if is_leap y then 29 else 28)
      else if m = 4 \<or> m = 6 \<or> m = 9 \<or> m = 11 then 30 else 31)"

definition valid_date :: "nat \<Rightarrow> nat \<Rightarrow> nat \<Rightarrow> bool" where
  "valid_date y m d = (1 \<le> y \<and> y \<le> 9999 \<and> 1 \<le> m \<and> m \<le> 12 \<and> 1 \<le> d \<and> d \<le> days_in_month y m)"

text \<open>The result is (year, month, day); \<open>None\<close> stands for the \<open>ValueError\<close>.\<close>

definition strptime :: "string \<Rightarrow> string \<Rightarrow> (nat \<times> nat \<times> nat) option" where
  "strptime data_string fmt =
     (case re_match (parse_format fmt) data_string of
        [] \<Rightarrow> None
      | (found, rest) # _ \<Rightarrow>
          if rest \<noteq> [] then None
          else
            (let year = (case map_of found CHR ''Y'' of None \<Rightarrow> 1900 | Some t \<Rightarrow> group_val t);
                 month = (case map_of found CHR ''m'' of None \<Rightarrow> 1 | Some t \<Rightarrow> group_val t);
                 day = (case map_of found CHR ''d'' of None \<Rightarrow> 1 | Some t \<Rightarrow> group_val t)
             in if valid_date year month day then Some (year, month, day) else None))"

definition zfill :: "nat \<Rightarrow> string \<Rightarrow> string" where
  "zfill w s = replicate (w - length s) CHR ''0'' @ s"

text \<open>
  \<open>dt.strftime('%Y-%m-%d')\<close>: the month and the day are written with two digits; the
  year is what the C library writes for \<open>%Y\<close>, which with glibc is the number without
  leading zeros.
\<close>

definition strftime_iso :: "nat \<times> nat \<times> nat \<Rightarrow> string" where
  "strftime_iso dt =
     (case dt of (y, m, d) \<Rightarrow>
        str_nat y @ ''-'' @ zfill 2 (str_nat m) @ ''-'' @ zfill 2 (str_nat d))"


text \<open>The loop of \<open>parse_date\<close> over the formats; \<open>None\<close> when the loop falls through.\<close>

fun try_formats :: "string list \<Rightarrow> string \<Rightarrow> string option" where
  "try_formats [] s = None"
| "try_formats (fmt # fmts) s =
     (case strptime s fmt of
        Some dt \<Rightarrow> Some (strftime_iso dt)
      | None \<Rightarrow> try_formats fmts s)"

definition date_formats :: "string list" where
  "date_formats = [''%d/%m/%Y'', ''%Y-%m-%d'', ''%m/%d/%Y'']"

definition parse_date :: "pyval \<Rightarrow> string option" where
  "parse_date date_str =
     (if isna date_str then None
      else (case try_formats date_formats (py_str date_str) of
              Some r \<Rightarrow> Some r
            | None \<Rightarrow> Some (py_str date_str)))"

definition get_publisher :: "row \<Rightarrow> string option" where
  "get_publisher row =
     (if notna (row_get row ''ministry_department'') then Some (py_str (row_get row ''ministry_department''))
      else if notna (row_get row ''state_department'') then Some (py_str (row_get row ''state_department''))
      else None)"

definition get_description :: "row \<Rightarrow> string option" where
  "get_description row =
     (if notna (row_get row ''catalog_title'') then
        (let desc = py_str (row_get row ''catalog_title'') in
         if notna (row_get row ''note'') then Some (desc @ ''. '' @ py_str (row_get row ''note''))
         else Some desc)
      else if notna (row_get row ''note'') then Some (py_str (row_get row ''note''))
      else None)"

section \<open>Graphs and flat records\<close>

text \<open>
  A node records the constructor of the graph library and its arguments:
  \<open>URIRef(v)\<close>, and \<open>Literal(v)\<close> or \<open>Literal(v, datatype=t)\<close>. A graph is a set of
  triples, and \<open>g.add\<close> inserts one. A flat record is the dictionary that the builder
  appends, its keys in the order written.
\<close>

datatype node = URIRef pyval | Literal pyval "string option"

type_synonym triple = "node \<times> node \<times> node"

type_synonym graph = "triple set"

type_synonym flat_record = "(string \<times> pyval) list"

definition DCAT :: "string \<Rightarrow> node" where
  "DCAT name = URIRef (Str (''http://www.w3.org/ns/dcat#'' @ name))"

definition DCT :: "string \<Rightarrow> node" where
  "DCT name = URIRef (Str (''http://purl.org/dc/terms/'' @ name))"

definition RDF_type :: node where
  "RDF_type = URIRef (Str ''http://www.w3.org/1999/02/22-rdf-syntax-ns#type'')"

definition XSD_date :: string where
  "XSD_date = ''http://www.w3.org/2001/XMLSchema#date''"

definition XSD_integer :: string where
  "XSD_integer = ''http://www.w3.org/2001/XMLSchema#integer''"

text \<open>The truth value of \<open>if x:\<close> for a string or \<open>None\<close>, and the value stored in a record.\<close>

definition truthy :: "string option \<Rightarrow> bool" where
  "truthy x = (case x of None \<Rightarrow> False | Some s \<Rightarrow> s \<noteq> [])"

definition opt_val :: "string option \<Rightarrow> pyval" where
  "opt_val x = (case x of None \<Rightarrow> PyNone | Some s \<Rightarrow> Str s)"

definition when_do :: "bool \<Rightarrow> 'a list \<Rightarrow> 'a list" where
  "when_do b xs = (if b then xs else [])"

definition add_all :: "triple list \<Rightarrow> graph \<Rightarrow> graph" where
  "add_all ts g = foldl (\<lambda>g t. insert t g) g ts"

section \<open>Graph builder, Dublin Core variant\<close>

text \<open>
  The body of the loop of \<open>create_dublin_core_graph\<close> for one row: the triples it adds, in
  the order of the calls of \<open>g.add\<close>, and the record it appends. Under a guard
  \<open>pd.notna(row.get(k))\<close> the column exists, so \<open>row[k]\<close> is \<open>row.get(k)\<close> there.
\<close>

definition frequency_triples :: "node \<Rightarrow> string option \<Rightarrow> triple list" where
  "frequency_triples d_uri freq =
     when_do (truthy freq)
       (if startswith (py_str (opt_val freq)) ''http''
        then [(d_uri, DCT ''accrualPeriodicity'', URIRef (opt_val freq))]
        else [(d_uri, DCT ''accrualPeriodicity'', Literal (opt_val freq) None)])"

definition sector_triples :: "node \<Rightarrow> node \<Rightarrow> row \<Rightarrow> triple list" where
  "sector_triples d_uri predicate row =
     when_do (notna (row_get row ''sector''))
       (map (\<lambda>sector. (d_uri, predicate, Literal (Str (strip sector)) None))
            (split_on CHR '';'' (py_str (row_get row ''sector''))))"

definition landing_triples :: "node \<Rightarrow> pyval \<Rightarrow> triple list" where
  "landing_triples d_uri node_alias =
     when_do (notna node_alias)
       [(d_uri, DCAT ''landingPage'', URIRef (Str (''https://data.gov.in'' @ py_str node_alias)))]"

definition dublin_core_row :: "nat \<Rightarrow> row \<Rightarrow> triple list \<times> flat_record" where
  "dublin_core_row idx row =
     (let node_alias = node_alias_of row;
          d_uri = URIRef (Str (dataset_uri idx row));
          desc = get_description row;
          issued = parse_date (row_get row ''published_date'');
          modified = parse_date (row_get row ''changed'');
          created = parse_date (row_get row ''created'');
          publisher = get_publisher row;
          freq = normalize_frequency (row_get row ''frequency'')
      in
      (when_do (notna (row_get row ''title''))
         [(d_uri, DCT ''title'', Literal (row_get row ''title'') None)]
       @ when_do (truthy desc) [(d_uri, DCT ''description'', Literal (opt_val desc) None)]
       @ when_do (truthy issued) [(d_uri, DCT ''issued'', Literal (opt_val issued) (Some XSD_date))]
       @ when_do (truthy modified) [(d_uri, DCT ''modified'', Literal (opt_val modified) (Some XSD_date))]
       @ when_do (truthy created) [(d_uri, DCT ''created'', Literal (opt_val created) (Some XSD_date))]
       @ when_do (truthy publisher) [(d_uri, DCT ''publisher'', Literal (opt_val publisher) None)]
       @ frequency_triples d_uri freq
       @ sector_triples d_uri (DCT ''subject'') row
       @ landing_triples d_uri node_alias,
       [(''dataset_uri'', Str (dataset_uri idx row)),
        (''title'', row_get row ''title''),
        (''description'', opt_val desc),
        (''issued'', opt_val issued),
        (''modified'', opt_val modified),
        (''created'', opt_val created),
        (''publisher'', opt_val publisher),
        (''accrualPeriodicity'', opt_val freq),
        (''subject'', row_get row ''sector''),
        (''landingPage'',
           if notna node_alias then Str (''https://data.gov.in'' @ py_str node_alias) else PyNone)]))"

definition dublin_core_step ::
  "graph \<times> flat_record list \<Rightarrow> nat \<times> row \<Rightarrow> graph \<times> flat_record list" where
  "dublin_core_step st ir =
     (case st of (g, dublin_data) \<Rightarrow>
      case ir of (idx, row) \<Rightarrow>
      case dublin_core_row idx row of (ts, r) \<Rightarrow> (add_all ts g, dublin_data @ [r]))"

definition create_dublin_core_graph :: "row list \<Rightarrow> graph \<times> flat_record list" where
  "create_dublin_core_graph df = foldl dublin_core_step ({}, []) (enumerate 0 df)"

section \<open>Graph builder, DCAT variant\<close>

text \<open>The byte size of a distribution: \<open>int()\<close> inside \<open>try\<close>, the exception swallowed.\<close>

definition byte_size_triples :: "node \<Rightarrow> row \<Rightarrow> triple list" where
  "byte_size_triples dist_uri row =
     when_do (notna (row_get row ''file_size''))
       (case py_int (row_get row ''file_size'') of
          None \<Rightarrow> []
        | Some sz \<Rightarrow> [(dist_uri, DCAT ''byteSize'', Literal (IntV sz) (Some XSD_integer))])"

definition format_triples :: "node \<Rightarrow> row \<Rightarrow> triple list" where
  "format_triples dist_uri row =
     when_do (notna (row_get row ''file_format''))
       [(dist_uri, DCT ''format'', Literal (row_get row ''file_format'') None),
        (dist_uri, DCAT ''mediaType'', Literal (row_get row ''file_format'') None)]"

definition api_distribution :: "string \<Rightarrow> row \<Rightarrow> triple list \<times> flat_record list" where
  "api_distribution uri row =
     (if notna (row_get row ''datafile_url'') then
        (let dist_uri = URIRef (Str (uri @ ''/distribution/api'')) in
         ([(dist_uri, RDF_type, DCAT ''Distribution''),
           (URIRef (Str uri), DCAT ''distribution'', dist_uri),
           (dist_uri, DCAT ''accessURL'', URIRef (row_get row ''datafile_url''))]
          @ format_triples dist_uri row
          @ byte_size_triples dist_uri row,
          [[(''dataset_uri'', Str uri),
            (''distribution_uri'', Str (uri @ ''/distribution/api'')),
            (''distribution_type'', Str ''API''),
            (''accessURL'', row_get row ''datafile_url''),
            (''downloadURL'', PyNone),
            (''format'', row_get row ''file_format''),
            (''byteSize'', row_get row ''file_size''),
            (''title'', row_get row ''title'')]]))
      else ([], []))"

definition file_distribution :: "string \<Rightarrow> row \<Rightarrow> triple list \<times> flat_record list" where
  "file_distribution uri row =
     (if notna (row_get row ''datafile'') then
        (let dist_uri = URIRef (Str (uri @ ''/distribution/file'')) in
         ([(dist_uri, RDF_type, DCAT ''Distribution''),
           (URIRef (Str uri), DCAT ''distribution'', dist_uri),
           (dist_uri, DCAT ''downloadURL'', URIRef (row_get row ''datafile''))]
          @ format_triples dist_uri row
          @ byte_size_triples dist_uri row,
          [[(''dataset_uri'', Str uri),
            (''distribution_uri'', Str (uri @ ''/distribution/file'')),
            (''distribution_type'', Str ''File''),
            (''accessURL'', PyNone),
            (''downloadURL'', row_get row ''datafile''),
            (''format'', row_get row ''file_format''),
            (''byteSize'', row_get row ''file_size''),
            (''title'', row_get row ''title'')]]))
      else ([], []))"

text \<open>The triples of the dataset itself, lines 181--218.\<close>

definition dcat_dataset_triples :: "nat \<Rightarrow> row \<Rightarrow> triple list" where
  "dcat_dataset_triples idx row =
     (let node_alias = node_alias_of row;
          d_uri = URIRef (Str (dataset_uri idx row));
          desc = get_description row;
          issued = parse_date (row_get row ''published_date'');
          modified = parse_date (row_get row ''changed'');
          publisher = get_publisher row;
          freq = normalize_frequency (row_get row ''frequency'')
      in
      [(d_uri, RDF_type, DCAT ''Dataset'')]
      @ when_do (notna (row_get row ''title''))
          [(d_uri, DCT ''title'', Literal (row_get row ''title'') None)]
      @ when_do (truthy desc) [(d_uri, DCT ''description'', Literal (opt_val desc) None)]
      @ when_do (truthy issued) [(d_uri, DCT ''issued'', Literal (opt_val issued) (Some XSD_date))]
      @ when_do (truthy modified) [(d_uri, DCT ''modified'', Literal (opt_val modified) (Some XSD_date))]
      @ when_do (truthy publisher) [(d_uri, DCT ''publisher'', Literal (opt_val publisher) None)]
      @ frequency_triples d_uri freq
      @ sector_triples d_uri (DCAT ''theme'') row
      @ landing_triples d_uri node_alias)"

definition dcat_row :: "nat \<Rightarrow> row \<Rightarrow> triple list \<times> flat_record list" where
  "dcat_row idx row =
     (let api = api_distribution (dataset_uri idx row) row;
          file = file_distribution (dataset_uri idx row) row
      in (dcat_dataset_triples idx row @ fst api @ fst file, snd api @ snd file))"

definition dcat_step ::
  "graph \<times> flat_record list \<Rightarrow> nat \<times> row \<Rightarrow> graph \<times> flat_record list" where
  "dcat_step st ir =
     (case st of (g, dcat_data) \<Rightarrow>
      case ir of (idx, row) \<Rightarrow>
      case dcat_row idx row of (ts, rs) \<Rightarrow> (add_all ts g, dcat_data @ rs))"

definition create_dcat_graph :: "row list \<Rightarrow> graph \<times> flat_record list" where
  "create_dcat_graph df = foldl dcat_step ({}, []) (enumerate 0 df)"

section \<open>Columns and notions of the specification\<close>

text \<open>The columns that each builder reads from a row, collected from its \<open>row.get\<close> calls.\<close>

definition dublin_core_columns :: "string list" where
  "dublin_core_columns =
     [''node_alias'', ''title'', ''catalog_title'', ''note'', ''published_date'', ''changed'',
      ''created'', ''ministry_department'', ''state_department'', ''frequency'', ''sector'']"

definition dcat_columns :: "string list" where
  "dcat_columns =
     [''node_alias'', ''title'', ''catalog_title'', ''note'', ''published_date'', ''changed'',
      ''ministry_department'', ''state_department'', ''frequency'', ''sector'',
      ''datafile_url'', ''datafile'', ''file_format'', ''file_size'']"

text \<open>
  The identifier as the specification describes it, a function of the alias or the index
  alone: the base origin and the alias, or the base origin, \<open>/dataset/\<close> and the index.
\<close>

fun identifier_of :: "string + nat \<Rightarrow> string" where
  "identifier_of (Inl a) = ''https://data.gov.in'' @ a"
| "identifier_of (Inr i) = ''https://data.gov.in/dataset/'' @ str_nat i"

text \<open>What the identifier is made from: the text of the alias when \<open>pd.notna\<close> holds of it, else the index.\<close>

definition alias_or_index :: "nat \<Rightarrow> row \<Rightarrow> string + nat" where
  "alias_or_index idx row =
     (if notna (node_alias_of row) then Inl (py_str (node_alias_of row)) else Inr idx)"


text \<open>The predicates of the dataset-level fields that the two builders have in common.\<close>

definition shared_predicate :: "node \<Rightarrow> bool" where
  "shared_predicate p = (p \<in> set [DCT ''title'', DCT ''description'', DCT ''issued'', DCT ''modified'',
      DCT ''publisher'', DCT ''accrualPeriodicity'', DCAT ''landingPage''])"

section \<open>Properties of the decimal text\<close>





section \<open>The loops of the builders, row by row\<close>

lemma add_all_set: "add_all ts g = g \<union> set ts"
  unfolding add_all_def by (induction ts arbitrary: g) auto

lemma dublin_core_fold:
  "foldl dublin_core_step (g, data) xs =
     (g \<union> set (concat (map (\<lambda>(i, r). fst (dublin_core_row i r)) xs)),
      data @ map (\<lambda>(i, r). snd (dublin_core_row i r)) xs)"
proof (induction xs arbitrary: g data)
  case Nil
  show ?case by simp
next
  case (Cons x xs)
  obtain i r where x: "x = (i, r)" by (cases x)
  obtain ts rc where row: "dublin_core_row i r = (ts, rc)" by (cases "dublin_core_row i r")
  have "dublin_core_step (g, data) x = (g \<union> set ts, data @ [rc])"
    by (simp add: dublin_core_step_def x row add_all_set)
  then show ?case
    by (simp add: Cons.IH x row Un_assoc)
qed

lemma create_dublin_core_graph_rows:
  "create_dublin_core_graph df =
     (set (concat (map (\<lambda>(i, r). fst (dublin_core_row i r)) (enumerate 0 df))),
      map (\<lambda>(i, r). snd (dublin_core_row i r)) (enumerate 0 df))"
  by (simp add: create_dublin_core_graph_def dublin_core_fold)

lemma dcat_fold:
  "foldl dcat_step (g, data) xs =
     (g \<union> set (concat (map (\<lambda>(i, r). fst (dcat_row i r)) xs)),
      data @ concat (map (\<lambda>(i, r). snd (dcat_row i r)) xs))"
proof (induction xs arbitrary: g data)
  case Nil
  show ?case by simp
next
  case (Cons x xs)
  obtain i r where x: "x = (i, r)" by (cases x)
  obtain ts rs where row: "dcat_row i r = (ts, rs)" by (cases "dcat_row i r")
  have "dcat_step (g, data) x = (g \<union> set ts, data @ rs)"
    by (simp add: dcat_step_def x row add_all_set)
  then show ?case
    by (simp add: Cons.IH x row Un_assoc)
qed

lemma create_dcat_graph_rows:
  "create_dcat_graph df =
     (set (concat (map (\<lambda>(i, r). fst (dcat_row i r)) (enumerate 0 df))),
      concat (map (\<lambda>(i, r). snd (dcat_row i r)) (enumerate 0 df)))"
  by (simp add: create_dcat_graph_def dcat_fold)

lemma enumerate_member: "idx < length df \<Longrightarrow> (idx, df ! idx) \<in> set (enumerate 0 df)"
  by (simp add: in_set_enumerate_eq)

lemma dublin_core_graph_member:
  assumes "idx < length df" "t \<in> set (fst (dublin_core_row idx (df ! idx)))"
  shows "t \<in> fst (create_dublin_core_graph df)"
  using enumerate_member [OF assms(1)] assms(2)
  by (force simp: create_dublin_core_graph_rows)

lemma dcat_graph_member:
  assumes "idx < length df" "t \<in> set (fst (dcat_row idx (df ! idx)))"
  shows "t \<in> fst (create_dcat_graph df)"
  using enumerate_member [OF assms(1)] assms(2)
  by (force simp: create_dcat_graph_rows)

lemma dublin_core_records_nth:
  assumes "idx < length df"
  shows "snd (create_dublin_core_graph df) ! idx = snd (dublin_core_row idx (df ! idx))"
  using assms by (simp add: create_dublin_core_graph_rows nth_enumerate_eq)

lemma dublin_core_records_length: "length (snd (create_dublin_core_graph df)) = length df"
  by (simp add: create_dublin_core_graph_rows)

section \<open>Identifiers\<close>

lemma dcat_type_triple_in_row:
  "(URIRef (Str (dataset_uri idx row)), RDF_type, DCAT ''Dataset'') \<in> set (fst (dcat_row idx row))"
  by (simp add: dcat_row_def dcat_dataset_triples_def Let_def)

lemma dublin_record_dataset_uri:
  "map_of (snd (dublin_core_row idx row)) ''dataset_uri'' = Some (Str (dataset_uri idx row))"
  by (simp add: dublin_core_row_def Let_def)



lemma landing_triple_in_dublin_row:
  "notna (node_alias_of row) \<Longrightarrow>
   (URIRef (Str (dataset_uri idx row)), DCAT ''landingPage'',
    URIRef (Str (''https://data.gov.in'' @ py_str (node_alias_of row))))
     \<in> set (fst (dublin_core_row idx row))"
  by (simp add: dublin_core_row_def Let_def landing_triples_def when_do_def)

lemma landing_triple_in_dcat_row:
  "notna (node_alias_of row) \<Longrightarrow>
   (URIRef (Str (dataset_uri idx row)), DCAT ''landingPage'',
    URIRef (Str (''https://data.gov.in'' @ py_str (node_alias_of row))))
     \<in> set (fst (dcat_row idx row))"
  by (simp add: dcat_row_def dcat_dataset_triples_def Let_def landing_triples_def when_do_def)

lemma dublin_record_landing_page:
  "map_of (snd (dublin_core_row idx row)) ''landingPage'' =
     Some (if notna (node_alias_of row) then Str (''https://data.gov.in'' @ py_str (node_alias_of row))
           else PyNone)"
  by (simp add: dublin_core_row_def Let_def)

text \<open>
  Claim C9. When the column \<open>node_alias\<close> is missing from the row altogether, the default
  \<open>''\<close> of \<open>row.get\<close> counts as a present alias: the dataset URI is the bare base origin,
  whatever the index, and both builders add a landing-page triple that points at it.
\<close>

theorem missing_alias_column_gives_base_origin:
  assumes "idx < length df" and "(df ! idx) ''node_alias'' = None"
  shows "node_alias_of (df ! idx) = Str []
       \<and> notna (node_alias_of (df ! idx))
       \<and> dataset_uri idx (df ! idx) = ''https://data.gov.in''
       \<and> (URIRef (Str ''https://data.gov.in''), DCAT ''landingPage'', URIRef (Str ''https://data.gov.in''))
            \<in> fst (create_dublin_core_graph df)
       \<and> (URIRef (Str ''https://data.gov.in''), DCAT ''landingPage'', URIRef (Str ''https://data.gov.in''))
            \<in> fst (create_dcat_graph df)
       \<and> map_of (snd (create_dublin_core_graph df) ! idx) ''landingPage'' = Some (Str ''https://data.gov.in'')"
proof -
  have al: "node_alias_of (df ! idx) = Str []"
    using assms(2) by (simp add: node_alias_of_def row_get_default_def)
  from al have present: "notna (node_alias_of (df ! idx))" by simp
  have uri: "dataset_uri idx (df ! idx) = ''https://data.gov.in''"
    by (simp add: dataset_uri_def al)
  have dc: "(URIRef (Str ''https://data.gov.in''), DCAT ''landingPage'', URIRef (Str ''https://data.gov.in''))
      \<in> set (fst (dublin_core_row idx (df ! idx)))"
    using landing_triple_in_dublin_row [OF present, of idx] by (simp add: uri al)
  have dcat: "(URIRef (Str ''https://data.gov.in''), DCAT ''landingPage'', URIRef (Str ''https://data.gov.in''))
      \<in> set (fst (dcat_row idx (df ! idx)))"
    using landing_triple_in_dcat_row [OF present, of idx] by (simp add: uri al)
  have rec: "map_of (snd (create_dublin_core_graph df) ! idx) ''landingPage'' = Some (Str ''https://data.gov.in'')"
    by (simp add: dublin_core_records_nth [OF assms(1)] dublin_record_landing_page al)
  from al present uri dublin_core_graph_member [OF assms(1) dc] dcat_graph_member [OF assms(1) dcat] rec
  show ?thesis by blast
qed

theorem missing_alias_column_gives_base_origin_witness:
  "dataset_uri 1 [''title'' \<mapsto> Str ''Rainfall''] = ''https://data.gov.in''
   \<and> (URIRef (Str ''https://data.gov.in''), DCAT ''landingPage'', URIRef (Str ''https://data.gov.in''))
        \<in> fst (create_dcat_graph [[''node_alias'' \<mapsto> NaN], [''title'' \<mapsto> Str ''Rainfall'']])"
proof -
  define df :: "row list" where
    "df = [[''node_alias'' \<mapsto> NaN], [''title'' \<mapsto> Str ''Rainfall'']]"
  have l: "1 < length df" by (simp add: df_def)
  have m: "(df ! 1) ''node_alias'' = None" by (simp add: df_def)
  have r: "df ! 1 = [''title'' \<mapsto> Str ''Rainfall'']" by (simp add: df_def)
  from missing_alias_column_gives_base_origin [OF l m]
  have "dataset_uri 1 (df ! 1) = ''https://data.gov.in''
     \<and> (URIRef (Str ''https://data.gov.in''), DCAT ''landingPage'', URIRef (Str ''https://data.gov.in''))
        \<in> fst (create_dcat_graph df)"
    by blast
  then show ?thesis
    unfolding r unfolding df_def .
qed

section \<open>Frequency vocabulary\<close>

text \<open>
  Claim C6. \<open>normalize_frequency\<close> gives \<open>None\<close> for a null value; otherwise it lower-cases
  and trims the text, maps the five keys daily, weekly, monthly, yearly and quarterly to
  their frequency URIs (yearly to the term \<open>annual\<close>), and gives any other text back
  lower-cased and trimmed. \<open>"Weekly "\<close> gives the weekly URI and \<open>"fortnightly"\<close> itself.
\<close>

theorem normalize_frequency_vocabulary:
  "(\<not> notna v \<longrightarrow> normalize_frequency v = None)
   \<and> (notna v \<longrightarrow>
        (strip (lower (py_str v)) = ''daily'' \<longrightarrow>
           normalize_frequency v = Some ''http://purl.org/cld/freq/daily'')
      \<and> (strip (lower (py_str v)) = ''weekly'' \<longrightarrow>
           normalize_frequency v = Some ''http://purl.org/cld/freq/weekly'')
      \<and> (strip (lower (py_str v)) = ''monthly'' \<longrightarrow>
           normalize_frequency v = Some ''http://purl.org/cld/freq/monthly'')
      \<and> (strip (lower (py_str v)) = ''yearly'' \<longrightarrow>
           normalize_frequency v = Some ''http://purl.org/cld/freq/annual'')
      \<and> (strip (lower (py_str v)) = ''quarterly'' \<longrightarrow>
           normalize_frequency v = Some ''http://purl.org/cld/freq/quarterly'')
      \<and> (strip (lower (py_str v)) \<notin> {''daily'', ''weekly'', ''monthly'', ''yearly'', ''quarterly''} \<longrightarrow>
           normalize_frequency v = Some (strip (lower (py_str v)))))
   \<and> normalize_frequency (Str ''Weekly '') = Some ''http://purl.org/cld/freq/weekly''
   \<and> normalize_frequency (Str ''fortnightly'') = Some ''fortnightly''"
proof -
  have e1: "normalize_frequency (Str ''Weekly '') = Some ''http://purl.org/cld/freq/weekly''"
    by code_simp
  have e2: "normalize_frequency (Str ''fortnightly'') = Some ''fortnightly''"
    by code_simp
  show ?thesis
  proof (intro conjI)
    show "\<not> notna v \<longrightarrow> normalize_frequency v = None"
      by (simp add: normalize_frequency_def)
    show "normalize_frequency (Str ''Weekly '') = Some ''http://purl.org/cld/freq/weekly''"
      by (fact e1)
    show "normalize_frequency (Str ''fortnightly'') = Some ''fortnightly''"
      by (fact e2)
  qed (simp add: normalize_frequency_def freq_mapping_def)
qed

theorem normalize_frequency_vocabulary_witness:
  "normalize_frequency NaN = None
   \<and> normalize_frequency (Str '' YEARLY'') = Some ''http://purl.org/cld/freq/annual''
   \<and> normalize_frequency (Str ''Every Week'') = Some ''every week''"
proof -
  have a: "\<not> notna NaN" by simp
  have b: "notna (Str '' YEARLY'')" "strip (lower (py_str (Str '' YEARLY''))) = ''yearly''"
    by (simp, code_simp)
  have c: "notna (Str ''Every Week'')" "strip (lower (py_str (Str ''Every Week''))) = ''every week''"
    by (simp, code_simp)
  have d: "''every week'' \<notin> {''daily'', ''weekly'', ''monthly'', ''yearly'', ''quarterly''}"
    by simp
  from normalize_frequency_vocabulary [of NaN] a have w1: "normalize_frequency NaN = None"
    by blast
  from normalize_frequency_vocabulary [of "Str '' YEARLY''"] b
  have w2: "normalize_frequency (Str '' YEARLY'') = Some ''http://purl.org/cld/freq/annual''"
    by blast
  from normalize_frequency_vocabulary [of "Str ''Every Week''"] c d
  have w3: "normalize_frequency (Str ''Every Week'') = Some ''every week''"
    by simp
  from w1 w2 w3 show ?thesis by blast
qed

section \<open>Dates\<close>















section \<open>Distributions\<close>

lemma filter_type_dataset_triples:
  "filter (\<lambda>t. fst (snd t) = RDF_type) (dcat_dataset_triples idx row) =
     [(URIRef (Str (dataset_uri idx row)), RDF_type, DCAT ''Dataset'')]"
  by (simp add: dcat_dataset_triples_def Let_def when_do_def frequency_triples_def
      sector_triples_def landing_triples_def DCT_def DCAT_def RDF_type_def filter_map o_def)

lemma filter_type_format_triples:
  "filter (\<lambda>t. fst (snd t) = RDF_type) (format_triples d row) = []"
  by (simp add: format_triples_def when_do_def DCT_def DCAT_def RDF_type_def)

lemma filter_type_byte_size_triples:
  "filter (\<lambda>t. fst (snd t) = RDF_type) (byte_size_triples d row) = []"
  by (cases "py_int (row_get row ''file_size'')")
     (simp_all add: byte_size_triples_def when_do_def DCAT_def RDF_type_def)

lemma filter_type_api:
  "filter (\<lambda>t. fst (snd t) = RDF_type) (fst (api_distribution u row)) =
     when_do (notna (row_get row ''datafile_url''))
       [(URIRef (Str (u @ ''/distribution/api'')), RDF_type, DCAT ''Distribution'')]"
  by (simp add: api_distribution_def Let_def when_do_def filter_type_format_triples
      filter_type_byte_size_triples)
     (simp add: DCAT_def RDF_type_def)

lemma filter_type_file:
  "filter (\<lambda>t. fst (snd t) = RDF_type) (fst (file_distribution u row)) =
     when_do (notna (row_get row ''datafile''))
       [(URIRef (Str (u @ ''/distribution/file'')), RDF_type, DCAT ''Distribution'')]"
  by (simp add: file_distribution_def Let_def when_do_def filter_type_format_triples
      filter_type_byte_size_triples)
     (simp add: DCAT_def RDF_type_def)

lemma filter_type_dcat_row:
  "filter (\<lambda>t. fst (snd t) = RDF_type) (fst (dcat_row idx row)) =
     [(URIRef (Str (dataset_uri idx row)), RDF_type, DCAT ''Dataset'')]
     @ when_do (notna (row_get row ''datafile_url''))
         [(URIRef (Str (dataset_uri idx row @ ''/distribution/api'')), RDF_type, DCAT ''Distribution'')]
     @ when_do (notna (row_get row ''datafile''))
         [(URIRef (Str (dataset_uri idx row @ ''/distribution/file'')), RDF_type, DCAT ''Distribution'')]"
  by (simp add: dcat_row_def Let_def filter_type_dataset_triples filter_type_api filter_type_file)

lemma dcat_row_records:
  "map (\<lambda>r. (map_of r ''distribution_uri'', map_of r ''distribution_type'')) (snd (dcat_row idx row)) =
     when_do (notna (row_get row ''datafile_url''))
       [(Some (Str (dataset_uri idx row @ ''/distribution/api'')), Some (Str ''API''))]
     @ when_do (notna (row_get row ''datafile''))
       [(Some (Str (dataset_uri idx row @ ''/distribution/file'')), Some (Str ''File''))]"
  by (simp add: dcat_row_def Let_def api_distribution_def file_distribution_def when_do_def)

lemma dcat_records_subset:
  assumes "idx < length df"
  shows "set (snd (dcat_row idx (df ! idx))) \<subseteq> set (snd (create_dcat_graph df))"
  using enumerate_member [OF assms]
  by (force simp: create_dcat_graph_rows)


lemma type_triple_member_iff:
  "(x, RDF_type, y) \<in> set (fst (dcat_row idx row)) \<longleftrightarrow>
   (x, RDF_type, y) \<in> set (filter (\<lambda>t. fst (snd t) = RDF_type) (fst (dcat_row idx row)))"
  by simp

text \<open>
  Claim C4. A row with both \<open>datafile_url\<close> and \<open>datafile\<close> present gives exactly two
  flat records and exactly two resources typed Distribution: first the dataset URI with
  \<open>/distribution/api\<close> and the label API, then the dataset URI with \<open>/distribution/file\<close>
  and the label File; the two URIs differ. For any row, the distribution of a kind is there
  exactly when its source field is present.
\<close>

theorem two_distributions_api_then_file:
  assumes "idx < length df"
  shows "(notna (row_get (df ! idx) ''datafile_url'') \<and> notna (row_get (df ! idx) ''datafile'') \<longrightarrow>
            map (\<lambda>r. (map_of r ''distribution_uri'', map_of r ''distribution_type''))
                (snd (dcat_row idx (df ! idx)))
              = [(Some (Str (dataset_uri idx (df ! idx) @ ''/distribution/api'')), Some (Str ''API'')),
                 (Some (Str (dataset_uri idx (df ! idx) @ ''/distribution/file'')), Some (Str ''File''))]
          \<and> map fst (filter (\<lambda>t. fst (snd t) = RDF_type \<and> snd (snd t) = DCAT ''Distribution'')
                             (fst (dcat_row idx (df ! idx))))
              = [URIRef (Str (dataset_uri idx (df ! idx) @ ''/distribution/api'')),
                 URIRef (Str (dataset_uri idx (df ! idx) @ ''/distribution/file''))]
          \<and> dataset_uri idx (df ! idx) @ ''/distribution/api''
              \<noteq> dataset_uri idx (df ! idx) @ ''/distribution/file''
          \<and> (URIRef (Str (dataset_uri idx (df ! idx) @ ''/distribution/api'')), RDF_type, DCAT ''Distribution'')
              \<in> fst (create_dcat_graph df)
          \<and> (URIRef (Str (dataset_uri idx (df ! idx) @ ''/distribution/file'')), RDF_type, DCAT ''Distribution'')
              \<in> fst (create_dcat_graph df)
          \<and> set (snd (dcat_row idx (df ! idx))) \<subseteq> set (snd (create_dcat_graph df)))
       \<and> ((URIRef (Str (dataset_uri idx (df ! idx) @ ''/distribution/api'')), RDF_type, DCAT ''Distribution'')
              \<in> set (fst (dcat_row idx (df ! idx)))
            \<longleftrightarrow> notna (row_get (df ! idx) ''datafile_url''))
       \<and> ((URIRef (Str (dataset_uri idx (df ! idx) @ ''/distribution/file'')), RDF_type, DCAT ''Distribution'')
              \<in> set (fst (dcat_row idx (df ! idx)))
            \<longleftrightarrow> notna (row_get (df ! idx) ''datafile''))
       \<and> ((Some (Str ''API'')) \<in> set (map (\<lambda>r. map_of r ''distribution_type'') (snd (dcat_row idx (df ! idx))))
            \<longleftrightarrow> notna (row_get (df ! idx) ''datafile_url''))
       \<and> ((Some (Str ''File'')) \<in> set (map (\<lambda>r. map_of r ''distribution_type'') (snd (dcat_row idx (df ! idx))))
            \<longleftrightarrow> notna (row_get (df ! idx) ''datafile''))"
proof -
  let ?row = "df ! idx"
  let ?u = "dataset_uri idx ?row"
  let ?api = "(URIRef (Str (?u @ ''/distribution/api'')), RDF_type, DCAT ''Distribution'')"
  let ?file = "(URIRef (Str (?u @ ''/distribution/file'')), RDF_type, DCAT ''Distribution'')"
  have dd: "DCAT ''Dataset'' \<noteq> DCAT ''Distribution''"
    by (simp add: DCAT_def)
  have api_iff: "?api \<in> set (fst (dcat_row idx ?row)) \<longleftrightarrow> notna (row_get ?row ''datafile_url'')"
    unfolding type_triple_member_iff filter_type_dcat_row
    using dd by (simp add: when_do_def)
  have file_iff: "?file \<in> set (fst (dcat_row idx ?row)) \<longleftrightarrow> notna (row_get ?row ''datafile'')"
    unfolding type_triple_member_iff filter_type_dcat_row
    using dd by (simp add: when_do_def)
  have types: "map (\<lambda>r. map_of r ''distribution_type'') (snd (dcat_row idx ?row)) =
      when_do (notna (row_get ?row ''datafile_url'')) [Some (Str ''API'')]
      @ when_do (notna (row_get ?row ''datafile'')) [Some (Str ''File'')]"
    by (simp add: dcat_row_def Let_def api_distribution_def file_distribution_def when_do_def)
  have api_rec: "Some (Str ''API'') \<in> set (map (\<lambda>r. map_of r ''distribution_type'') (snd (dcat_row idx ?row)))
      \<longleftrightarrow> notna (row_get ?row ''datafile_url'')"
    unfolding types by (simp add: when_do_def)
  have file_rec: "Some (Str ''File'') \<in> set (map (\<lambda>r. map_of r ''distribution_type'') (snd (dcat_row idx ?row)))
      \<longleftrightarrow> notna (row_get ?row ''datafile'')"
    unfolding types by (simp add: when_do_def)
  have both: "notna (row_get ?row ''datafile_url'') \<and> notna (row_get ?row ''datafile'') \<longrightarrow>
          map (\<lambda>r. (map_of r ''distribution_uri'', map_of r ''distribution_type''))
                (snd (dcat_row idx ?row))
              = [(Some (Str (?u @ ''/distribution/api'')), Some (Str ''API'')),
                 (Some (Str (?u @ ''/distribution/file'')), Some (Str ''File''))]
          \<and> map fst (filter (\<lambda>t. fst (snd t) = RDF_type \<and> snd (snd t) = DCAT ''Distribution'')
                             (fst (dcat_row idx ?row)))
              = [URIRef (Str (?u @ ''/distribution/api'')), URIRef (Str (?u @ ''/distribution/file''))]
          \<and> ?u @ ''/distribution/api'' \<noteq> ?u @ ''/distribution/file''
          \<and> ?api \<in> fst (create_dcat_graph df)
          \<and> ?file \<in> fst (create_dcat_graph df)
          \<and> set (snd (dcat_row idx ?row)) \<subseteq> set (snd (create_dcat_graph df))"
  proof (intro impI, elim conjE, intro conjI)
    assume p: "notna (row_get ?row ''datafile_url'')" "notna (row_get ?row ''datafile'')"
    show "map (\<lambda>r. (map_of r ''distribution_uri'', map_of r ''distribution_type''))
                (snd (dcat_row idx ?row))
              = [(Some (Str (?u @ ''/distribution/api'')), Some (Str ''API'')),
                 (Some (Str (?u @ ''/distribution/file'')), Some (Str ''File''))]"
      unfolding dcat_row_records using p by (simp add: when_do_def)
    have "filter (\<lambda>t. fst (snd t) = RDF_type \<and> snd (snd t) = DCAT ''Distribution'') (fst (dcat_row idx ?row))
        = filter (\<lambda>t. snd (snd t) = DCAT ''Distribution'')
            (filter (\<lambda>t. fst (snd t) = RDF_type) (fst (dcat_row idx ?row)))"
      by simp
    also have "\<dots> = [?api, ?file]"
      unfolding filter_type_dcat_row using p dd by (simp add: when_do_def)
    finally show "map fst (filter (\<lambda>t. fst (snd t) = RDF_type \<and> snd (snd t) = DCAT ''Distribution'')
                             (fst (dcat_row idx ?row)))
              = [URIRef (Str (?u @ ''/distribution/api'')), URIRef (Str (?u @ ''/distribution/file''))]"
      by simp
    show "?u @ ''/distribution/api'' \<noteq> ?u @ ''/distribution/file''"
      by simp
    show "?api \<in> fst (create_dcat_graph df)"
      using p api_iff by (intro dcat_graph_member [OF assms]) simp
    show "?file \<in> fst (create_dcat_graph df)"
      using p file_iff by (intro dcat_graph_member [OF assms]) simp
    show "set (snd (dcat_row idx ?row)) \<subseteq> set (snd (create_dcat_graph df))"
      by (rule dcat_records_subset [OF assms])
  qed
  show ?thesis
    by (rule conjI [OF both conjI [OF api_iff conjI [OF file_iff conjI [OF api_rec file_rec]]]])
qed


theorem two_distributions_api_then_file_witness:
  "map (\<lambda>r. (map_of r ''distribution_uri'', map_of r ''distribution_type''))
       (snd (dcat_row 0 [''node_alias'' \<mapsto> Str ''/catalog/rainfall'',
                         ''datafile_url'' \<mapsto> Str ''https://api.data.gov.in/resource/1'',
                         ''datafile'' \<mapsto> Str ''https://data.gov.in/files/rainfall.csv'']))
     = [(Some (Str ''https://data.gov.in/catalog/rainfall/distribution/api''), Some (Str ''API'')),
        (Some (Str ''https://data.gov.in/catalog/rainfall/distribution/file''), Some (Str ''File''))]"
proof -
  define row :: row where
    "row = [''node_alias'' \<mapsto> Str ''/catalog/rainfall'',
            ''datafile_url'' \<mapsto> Str ''https://api.data.gov.in/resource/1'',
            ''datafile'' \<mapsto> Str ''https://data.gov.in/files/rainfall.csv'']"
  have l: "0 < length [row]" by simp
  have r: "[row] ! 0 = row" by simp
  have a: "notna (row_get ([row] ! 0) ''datafile_url'')"
    by (simp add: row_def row_get_def)
  have b: "notna (row_get ([row] ! 0) ''datafile'')"
    by (simp add: row_def row_get_def)
  have u: "dataset_uri 0 row = ''https://data.gov.in/catalog/rainfall''"
    by (simp add: row_def dataset_uri_def node_alias_of_def row_get_default_def)
  from two_distributions_api_then_file [OF l] a b
  have "map (\<lambda>r. (map_of r ''distribution_uri'', map_of r ''distribution_type''))
            (snd (dcat_row 0 ([row] ! 0)))
        = [(Some (Str (dataset_uri 0 ([row] ! 0) @ ''/distribution/api'')), Some (Str ''API'')),
           (Some (Str (dataset_uri 0 ([row] ! 0) @ ''/distribution/file'')), Some (Str ''File''))]"
    by blast
  then have "map (\<lambda>r. (map_of r ''distribution_uri'', map_of r ''distribution_type''))
            (snd (dcat_row 0 row))
        = [(Some (Str (''https://data.gov.in/catalog/rainfall'' @ ''/distribution/api'')), Some (Str ''API'')),
           (Some (Str (''https://data.gov.in/catalog/rainfall'' @ ''/distribution/file'')), Some (Str ''File''))]"
    unfolding r u .
  then show ?thesis
    unfolding row_def by simp
qed

lemma count_list_filter: "P x \<Longrightarrow> count_list (filter P xs) x = count_list xs x"
  by (induction xs) auto

text \<open>
  Claim C5. A row with neither \<open>datafile_url\<close> nor \<open>datafile\<close> present appends no flat
  record, so the loop leaves the list of records as it was; the only type triple the loop
  adds for the row says that its dataset URI is a Dataset, and it adds it once.
\<close>

theorem no_distribution_no_record_one_dataset_type:
  assumes "idx < length df"
    and "\<not> notna (row_get (df ! idx) ''datafile_url'')"
    and "\<not> notna (row_get (df ! idx) ''datafile'')"
  shows "snd (dcat_row idx (df ! idx)) = []
       \<and> (\<forall>g dcat_data. snd (dcat_step (g, dcat_data) (idx, df ! idx)) = dcat_data)
       \<and> filter (\<lambda>t. fst (snd t) = RDF_type) (fst (dcat_row idx (df ! idx)))
            = [(URIRef (Str (dataset_uri idx (df ! idx))), RDF_type, DCAT ''Dataset'')]
       \<and> count_list (fst (dcat_row idx (df ! idx)))
            (URIRef (Str (dataset_uri idx (df ! idx))), RDF_type, DCAT ''Dataset'') = 1
       \<and> (URIRef (Str (dataset_uri idx (df ! idx))), RDF_type, DCAT ''Dataset'')
            \<in> fst (create_dcat_graph df)"
proof -
  let ?row = "df ! idx"
  let ?t = "(URIRef (Str (dataset_uri idx ?row)), RDF_type, DCAT ''Dataset'')"
  have recs: "snd (dcat_row idx ?row) = []"
    using assms(2,3) by (simp add: dcat_row_def Let_def api_distribution_def file_distribution_def)
  have step: "\<forall>g dcat_data. snd (dcat_step (g, dcat_data) (idx, ?row)) = dcat_data"
    using recs by (cases "dcat_row idx ?row") (simp add: dcat_step_def)
  have types: "filter (\<lambda>t. fst (snd t) = RDF_type) (fst (dcat_row idx ?row)) = [?t]"
    unfolding filter_type_dcat_row using assms(2,3) by (simp add: when_do_def)
  have "count_list (fst (dcat_row idx ?row)) ?t
      = count_list (filter (\<lambda>t. fst (snd t) = RDF_type) (fst (dcat_row idx ?row))) ?t"
    by (rule count_list_filter [symmetric]) simp
  also have "\<dots> = 1"
    unfolding types by simp
  finally have once: "count_list (fst (dcat_row idx ?row)) ?t = 1" .
  have mem: "?t \<in> fst (create_dcat_graph df)"
    by (rule dcat_graph_member [OF assms(1) dcat_type_triple_in_row])
  show ?thesis
    by (rule conjI [OF recs conjI [OF step conjI [OF types conjI [OF once mem]]]])
qed

theorem no_distribution_no_record_one_dataset_type_witness:
  "snd (dcat_row 0 [''title'' \<mapsto> Str ''Rainfall'', ''datafile'' \<mapsto> NaN]) = []
   \<and> count_list (fst (dcat_row 0 [''title'' \<mapsto> Str ''Rainfall'', ''datafile'' \<mapsto> NaN]))
        (URIRef (Str (dataset_uri 0 [''title'' \<mapsto> Str ''Rainfall'', ''datafile'' \<mapsto> NaN])),
         RDF_type, DCAT ''Dataset'') = 1"
proof -
  define row :: row where "row = [''title'' \<mapsto> Str ''Rainfall'', ''datafile'' \<mapsto> NaN]"
  have l: "0 < length [row]" by simp
  have a: "\<not> notna (row_get ([row] ! 0) ''datafile_url'')"
    by (simp add: row_def row_get_def)
  have b: "\<not> notna (row_get ([row] ! 0) ''datafile'')"
    by (simp add: row_def row_get_def)
  have r: "[row] ! 0 = row" by simp
  from no_distribution_no_record_one_dataset_type [OF l a b]
  have "snd (dcat_row 0 ([row] ! 0)) = []
      \<and> count_list (fst (dcat_row 0 ([row] ! 0)))
           (URIRef (Str (dataset_uri 0 ([row] ! 0))), RDF_type, DCAT ''Dataset'') = 1"
    by blast
  then show ?thesis
    unfolding r unfolding row_def .
qed

section \<open>Byte size\<close>




lemma byte_size_triples_parsed:
  "notna (row_get row ''file_size'') \<Longrightarrow> py_int (row_get row ''file_size'') = Some n \<Longrightarrow>
   byte_size_triples d row = [(d, DCAT ''byteSize'', Literal (IntV n) (Some XSD_integer))]"
  by (simp add: byte_size_triples_def when_do_def)






section \<open>Dataset-level fields of the two builders\<close>

lemma filter_when_do: "filter P (when_do b xs) = when_do b (filter P xs)"
  by (simp add: when_do_def)

lemma when_do_Nil: "when_do b [] = []"
  by (simp add: when_do_def)

lemma filter_pred_frequency:
  "filter (\<lambda>t. Q (fst (snd t))) (frequency_triples u f) =
     (if Q (DCT ''accrualPeriodicity'') then frequency_triples u f else [])"
  by (simp add: frequency_triples_def when_do_def)

lemma filter_pred_sector:
  "filter (\<lambda>t. Q (fst (snd t))) (sector_triples u p row) =
     (if Q p then sector_triples u p row else [])"
  by (simp add: sector_triples_def when_do_def filter_map o_def)

lemma filter_pred_landing:
  "filter (\<lambda>t. Q (fst (snd t))) (landing_triples u a) =
     (if Q (DCAT ''landingPage'') then landing_triples u a else [])"
  by (simp add: landing_triples_def when_do_def)

lemma filter_pred_format:
  "filter (\<lambda>t. Q (fst (snd t))) (format_triples d row) =
     when_do (notna (row_get row ''file_format''))
       (filter (\<lambda>t. Q (fst (snd t)))
          [(d, DCT ''format'', Literal (row_get row ''file_format'') None),
           (d, DCAT ''mediaType'', Literal (row_get row ''file_format'') None)])"
  by (simp add: format_triples_def when_do_def)

lemma filter_pred_byte_size:
  "\<not> Q (DCAT ''byteSize'') \<Longrightarrow> filter (\<lambda>t. Q (fst (snd t))) (byte_size_triples d row) = []"
  by (cases "py_int (row_get row ''file_size'')") (simp_all add: byte_size_triples_def when_do_def)

lemma shared_predicate_simps:
  "shared_predicate (DCT ''title'')" "shared_predicate (DCT ''description'')"
  "shared_predicate (DCT ''issued'')" "shared_predicate (DCT ''modified'')"
  "shared_predicate (DCT ''publisher'')" "shared_predicate (DCT ''accrualPeriodicity'')"
  "shared_predicate (DCAT ''landingPage'')"
  "\<not> shared_predicate (DCT ''created'')" "\<not> shared_predicate (DCT ''subject'')"
  "\<not> shared_predicate (DCAT ''theme'')" "\<not> shared_predicate RDF_type"
  "\<not> shared_predicate (DCAT ''distribution'')" "\<not> shared_predicate (DCAT ''accessURL'')"
  "\<not> shared_predicate (DCAT ''downloadURL'')" "\<not> shared_predicate (DCT ''format'')"
  "\<not> shared_predicate (DCAT ''mediaType'')" "\<not> shared_predicate (DCAT ''byteSize'')"
  by (simp_all add: shared_predicate_def DCT_def DCAT_def RDF_type_def)

lemma shared_api: "filter (\<lambda>t. shared_predicate (fst (snd t))) (fst (api_distribution u row)) = []"
  by (simp add: api_distribution_def Let_def filter_pred_format filter_pred_byte_size
      shared_predicate_simps when_do_def)

lemma shared_file: "filter (\<lambda>t. shared_predicate (fst (snd t))) (fst (file_distribution u row)) = []"
  by (simp add: file_distribution_def Let_def filter_pred_format filter_pred_byte_size
      shared_predicate_simps when_do_def)

lemma dcat_shares_dublin_core_fields:
  "filter (\<lambda>t. shared_predicate (fst (snd t))) (fst (dcat_row idx row)) =
   filter (\<lambda>t. shared_predicate (fst (snd t))) (fst (dublin_core_row idx row))"
  by (simp add: dcat_row_def dcat_dataset_triples_def dublin_core_row_def Let_def
      shared_api shared_file filter_when_do filter_pred_frequency filter_pred_sector
      filter_pred_landing shared_predicate_simps when_do_Nil)

lemma dcat_row_no_created:
  "filter (\<lambda>t. fst (snd t) = DCT ''created'') (fst (dcat_row idx row)) = []"
proof -
  have ne: "DCT ''accrualPeriodicity'' \<noteq> DCT ''created''" "DCAT ''theme'' \<noteq> DCT ''created''"
    "DCAT ''landingPage'' \<noteq> DCT ''created''" "DCAT ''byteSize'' \<noteq> DCT ''created''"
    "RDF_type \<noteq> DCT ''created''" "DCT ''title'' \<noteq> DCT ''created''"
    "DCT ''description'' \<noteq> DCT ''created''" "DCT ''issued'' \<noteq> DCT ''created''"
    "DCT ''modified'' \<noteq> DCT ''created''" "DCT ''publisher'' \<noteq> DCT ''created''"
    "DCAT ''distribution'' \<noteq> DCT ''created''" "DCAT ''accessURL'' \<noteq> DCT ''created''"
    "DCAT ''downloadURL'' \<noteq> DCT ''created''" "DCT ''format'' \<noteq> DCT ''created''"
    "DCAT ''mediaType'' \<noteq> DCT ''created''"
    by (simp_all add: DCT_def DCAT_def RDF_type_def)
  have bs: "filter (\<lambda>t. fst (snd t) = DCT ''created'') (byte_size_triples d row) = []" for d
    using filter_pred_byte_size [of "\<lambda>p. p = DCT ''created''"] ne by simp
  have fq: "filter (\<lambda>t. fst (snd t) = DCT ''created'') (frequency_triples u f) = []" for u f
    using filter_pred_frequency [of "\<lambda>p. p = DCT ''created''"] ne by simp
  have sc: "filter (\<lambda>t. fst (snd t) = DCT ''created'') (sector_triples u (DCAT ''theme'') row) = []" for u
    using filter_pred_sector [of "\<lambda>p. p = DCT ''created''"] ne by simp
  have lp: "filter (\<lambda>t. fst (snd t) = DCT ''created'') (landing_triples u a) = []" for u a
    using filter_pred_landing [of "\<lambda>p. p = DCT ''created''"] ne by simp
  have fm: "filter (\<lambda>t. fst (snd t) = DCT ''created'') (format_triples d row) = []" for d
    using ne by (simp add: format_triples_def when_do_def)
  show ?thesis
    using ne
    by (simp add: dcat_row_def dcat_dataset_triples_def Let_def api_distribution_def
        file_distribution_def filter_when_do bs fq sc lp fm when_do_def)
qed

lemma dublin_core_date_triples:
  "truthy (parse_date (row_get row ''published_date'')) \<Longrightarrow>
     (URIRef (Str (dataset_uri idx row)), DCT ''issued'',
      Literal (opt_val (parse_date (row_get row ''published_date''))) (Some XSD_date))
       \<in> set (fst (dublin_core_row idx row))"
  "truthy (parse_date (row_get row ''changed'')) \<Longrightarrow>
     (URIRef (Str (dataset_uri idx row)), DCT ''modified'',
      Literal (opt_val (parse_date (row_get row ''changed''))) (Some XSD_date))
       \<in> set (fst (dublin_core_row idx row))"
  "truthy (parse_date (row_get row ''created'')) \<Longrightarrow>
     (URIRef (Str (dataset_uri idx row)), DCT ''created'',
      Literal (opt_val (parse_date (row_get row ''created''))) (Some XSD_date))
       \<in> set (fst (dublin_core_row idx row))"
  by (simp_all add: dublin_core_row_def Let_def when_do_def)

lemma dcat_date_triples:
  "truthy (parse_date (row_get row ''published_date'')) \<Longrightarrow>
     (URIRef (Str (dataset_uri idx row)), DCT ''issued'',
      Literal (opt_val (parse_date (row_get row ''published_date''))) (Some XSD_date))
       \<in> set (fst (dcat_row idx row))"
  "truthy (parse_date (row_get row ''changed'')) \<Longrightarrow>
     (URIRef (Str (dataset_uri idx row)), DCT ''modified'',
      Literal (opt_val (parse_date (row_get row ''changed''))) (Some XSD_date))
       \<in> set (fst (dcat_row idx row))"
  by (simp_all add: dcat_row_def dcat_dataset_triples_def Let_def when_do_def)

lemma single_row_dcat_graph: "fst (create_dcat_graph [row]) = set (fst (dcat_row 0 row))"
  by (simp add: create_dcat_graph_rows enumerate_simps)

lemma single_row_dublin_core_graph:
  "fst (create_dublin_core_graph [row]) = set (fst (dublin_core_row 0 row))"
  by (simp add: create_dublin_core_graph_rows enumerate_simps)

text \<open>
  Claim C2 at a row whose \<open>created\<close> field is a date: the Dublin Core builder adds the
  \<open>created\<close> triple for the dataset URI, and the DCAT builder adds no triple with that
  predicate, while the \<open>issued\<close> triple of the same row is in both graphs.
\<close>

theorem dcat_builder_omits_created:
  "(URIRef (Str ''https://data.gov.in/catalog/rainfall''), DCT ''created'',
      Literal (Str ''2020-01-15'') (Some XSD_date))
     \<in> fst (create_dublin_core_graph
          [[''node_alias'' \<mapsto> Str ''/catalog/rainfall'', ''published_date'' \<mapsto> Str ''01/02/2020'',
            ''created'' \<mapsto> Str ''2020-01-15'']])
   \<and> (URIRef (Str ''https://data.gov.in/catalog/rainfall''), DCT ''created'',
      Literal (Str ''2020-01-15'') (Some XSD_date))
     \<notin> fst (create_dcat_graph
          [[''node_alias'' \<mapsto> Str ''/catalog/rainfall'', ''published_date'' \<mapsto> Str ''01/02/2020'',
            ''created'' \<mapsto> Str ''2020-01-15'']])
   \<and> filter (\<lambda>t. fst (snd t) = DCT ''created'')
        (fst (dcat_row 0
          [''node_alias'' \<mapsto> Str ''/catalog/rainfall'', ''published_date'' \<mapsto> Str ''01/02/2020'',
           ''created'' \<mapsto> Str ''2020-01-15''])) = []
   \<and> (URIRef (Str ''https://data.gov.in/catalog/rainfall''), DCT ''issued'',
      Literal (Str ''2020-02-01'') (Some XSD_date))
     \<in> fst (create_dublin_core_graph
          [[''node_alias'' \<mapsto> Str ''/catalog/rainfall'', ''published_date'' \<mapsto> Str ''01/02/2020'',
            ''created'' \<mapsto> Str ''2020-01-15'']])
   \<and> (URIRef (Str ''https://data.gov.in/catalog/rainfall''), DCT ''issued'',
      Literal (Str ''2020-02-01'') (Some XSD_date))
     \<in> fst (create_dcat_graph
          [[''node_alias'' \<mapsto> Str ''/catalog/rainfall'', ''published_date'' \<mapsto> Str ''01/02/2020'',
            ''created'' \<mapsto> Str ''2020-01-15'']])"
proof -
  define row :: row where
    "row = [''node_alias'' \<mapsto> Str ''/catalog/rainfall'', ''published_date'' \<mapsto> Str ''01/02/2020'',
            ''created'' \<mapsto> Str ''2020-01-15'']"
  have u: "dataset_uri 0 row = ''https://data.gov.in/catalog/rainfall''"
    by (simp add: row_def dataset_uri_def node_alias_of_def row_get_default_def)
  have gc: "row_get row ''created'' = Str ''2020-01-15''"
    and gp: "row_get row ''published_date'' = Str ''01/02/2020''"
    by (simp_all add: row_def row_get_def)
  have pc: "parse_date (Str ''2020-01-15'') = Some ''2020-01-15''" by code_simp
  have pp: "parse_date (Str ''01/02/2020'') = Some ''2020-02-01''" by code_simp
  have tc: "truthy (parse_date (row_get row ''created''))"
    and tp: "truthy (parse_date (row_get row ''published_date''))"
    by (simp_all add: gc gp pc pp truthy_def)
  have c_dc: "(URIRef (Str ''https://data.gov.in/catalog/rainfall''), DCT ''created'',
      Literal (Str ''2020-01-15'') (Some XSD_date)) \<in> fst (create_dublin_core_graph [row])"
    using dublin_core_date_triples(3) [OF tc, of 0]
    by (simp add: single_row_dublin_core_graph u gc pc opt_val_def)
  have i_dc: "(URIRef (Str ''https://data.gov.in/catalog/rainfall''), DCT ''issued'',
      Literal (Str ''2020-02-01'') (Some XSD_date)) \<in> fst (create_dublin_core_graph [row])"
    using dublin_core_date_triples(1) [OF tp, of 0]
    by (simp add: single_row_dublin_core_graph u gp pp opt_val_def)
  have i_dcat: "(URIRef (Str ''https://data.gov.in/catalog/rainfall''), DCT ''issued'',
      Literal (Str ''2020-02-01'') (Some XSD_date)) \<in> fst (create_dcat_graph [row])"
    using dcat_date_triples(1) [OF tp, of 0]
    by (simp add: single_row_dcat_graph u gp pp opt_val_def)
  have none: "filter (\<lambda>t. fst (snd t) = DCT ''created'') (fst (dcat_row 0 row)) = []"
    by (rule dcat_row_no_created)
  then have "\<forall>t \<in> set (fst (dcat_row 0 row)). fst (snd t) \<noteq> DCT ''created''"
    by (simp add: filter_empty_conv)
  then have c_dcat: "(URIRef (Str ''https://data.gov.in/catalog/rainfall''), DCT ''created'',
      Literal (Str ''2020-01-15'') (Some XSD_date)) \<notin> fst (create_dcat_graph [row])"
    unfolding single_row_dcat_graph by force
  show ?thesis
    using c_dc c_dcat none i_dc i_dcat unfolding row_def by (intro conjI)
qed

section \<open>Dates that no format parses\<close>






section \<open>Determinism\<close>

lemma dublin_core_row_cong:
  assumes "\<forall>k \<in> set dublin_core_columns. r k = r' k"
  shows "dublin_core_row i r = dublin_core_row i r'"
proof -
  from assms have g: "row_get r ''title'' = row_get r' ''title''"
    "row_get r ''catalog_title'' = row_get r' ''catalog_title''"
    "row_get r ''note'' = row_get r' ''note''"
    "row_get r ''published_date'' = row_get r' ''published_date''"
    "row_get r ''changed'' = row_get r' ''changed''"
    "row_get r ''created'' = row_get r' ''created''"
    "row_get r ''ministry_department'' = row_get r' ''ministry_department''"
    "row_get r ''state_department'' = row_get r' ''state_department''"
    "row_get r ''frequency'' = row_get r' ''frequency''"
    "row_get r ''sector'' = row_get r' ''sector''"
    by (simp_all add: dublin_core_columns_def row_get_def)
  from assms have a: "node_alias_of r = node_alias_of r'"
    by (simp add: dublin_core_columns_def node_alias_of_def row_get_default_def)
  have d: "get_description r = get_description r'"
    by (simp only: get_description_def g)
  have p: "get_publisher r = get_publisher r'"
    by (simp only: get_publisher_def g)
  have u: "dataset_uri i r = dataset_uri i r'"
    by (simp only: dataset_uri_def a)
  have s: "sector_triples x y r = sector_triples x y r'" for x y
    by (simp only: sector_triples_def g)
  show ?thesis
    by (simp only: dublin_core_row_def g a d p u s)
qed

lemma dcat_row_cong:
  assumes "\<forall>k \<in> set dcat_columns. r k = r' k"
  shows "dcat_row i r = dcat_row i r'"
proof -
  from assms have g: "row_get r ''title'' = row_get r' ''title''"
    "row_get r ''catalog_title'' = row_get r' ''catalog_title''"
    "row_get r ''note'' = row_get r' ''note''"
    "row_get r ''published_date'' = row_get r' ''published_date''"
    "row_get r ''changed'' = row_get r' ''changed''"
    "row_get r ''ministry_department'' = row_get r' ''ministry_department''"
    "row_get r ''state_department'' = row_get r' ''state_department''"
    "row_get r ''frequency'' = row_get r' ''frequency''"
    "row_get r ''sector'' = row_get r' ''sector''"
    "row_get r ''datafile_url'' = row_get r' ''datafile_url''"
    "row_get r ''datafile'' = row_get r' ''datafile''"
    "row_get r ''file_format'' = row_get r' ''file_format''"
    "row_get r ''file_size'' = row_get r' ''file_size''"
    by (simp_all add: dcat_columns_def row_get_def)
  from assms have a: "node_alias_of r = node_alias_of r'"
    by (simp add: dcat_columns_def node_alias_of_def row_get_default_def)
  have d: "get_description r = get_description r'"
    by (simp only: get_description_def g)
  have p: "get_publisher r = get_publisher r'"
    by (simp only: get_publisher_def g)
  have u: "dataset_uri i r = dataset_uri i r'"
    by (simp only: dataset_uri_def a)
  have s: "sector_triples x y r = sector_triples x y r'" for x y
    by (simp only: sector_triples_def g)
  have f: "format_triples x r = format_triples x r'" for x
    by (simp only: format_triples_def g)
  have b: "byte_size_triples x r = byte_size_triples x r'" for x
    by (simp only: byte_size_triples_def g)
  have ds: "dcat_dataset_triples i r = dcat_dataset_triples i r'"
    by (simp only: dcat_dataset_triples_def g a d p u s)
  have api: "api_distribution x r = api_distribution x r'" for x
    by (simp only: api_distribution_def g f b)
  have fil: "file_distribution x r = file_distribution x r'" for x
    by (simp only: file_distribution_def g f b)
  show ?thesis
    by (simp only: dcat_row_def ds api fil u)
qed

lemma map_enumerate_nth:
  "map (\<lambda>(i, r). F i r) (enumerate 0 df) = map (\<lambda>i. F i (df ! i)) [0..<length df]"
  by (rule nth_equalityI) (simp_all add: nth_enumerate_eq)

lemma set_concat_upt: "set (concat (map g [0..<n])) = (\<Union>i<n. set (g i))"
  by (auto simp: atLeast0LessThan)

lemma create_dublin_core_graph_by_index:
  "create_dublin_core_graph df =
     (\<Union>i<length df. set (fst (dublin_core_row i (df ! i))),
      map (\<lambda>i. snd (dublin_core_row i (df ! i))) [0..<length df])"
  by (simp only: create_dublin_core_graph_rows map_enumerate_nth set_concat_upt)

lemma create_dcat_graph_by_index:
  "create_dcat_graph df =
     (\<Union>i<length df. set (fst (dcat_row i (df ! i))),
      concat (map (\<lambda>i. snd (dcat_row i (df ! i))) [0..<length df]))"
  by (simp only: create_dcat_graph_rows map_enumerate_nth set_concat_upt)

lemma dataset_uri_identifier_of:
  "dataset_uri idx row = identifier_of (alias_or_index idx row)"
  by (simp add: dataset_uri_def alias_or_index_def)

lemma dublin_core_record_identifiers:
  "map (\<lambda>r. map_of r ''dataset_uri'') (snd (create_dublin_core_graph df)) =
     map (\<lambda>i. Some (Str (identifier_of (alias_or_index i (df ! i))))) [0..<length df]"
  by (simp add: create_dublin_core_graph_by_index dublin_record_dataset_uri
      dataset_uri_identifier_of o_def)

lemma dcat_record_identifiers:
  "map (\<lambda>r. (map_of r ''dataset_uri'', map_of r ''distribution_uri'')) (snd (dcat_row idx row)) =
     when_do (notna (row_get row ''datafile_url''))
       [(Some (Str (identifier_of (alias_or_index idx row))),
         Some (Str (identifier_of (alias_or_index idx row) @ ''/distribution/api'')))]
     @ when_do (notna (row_get row ''datafile''))
       [(Some (Str (identifier_of (alias_or_index idx row))),
         Some (Str (identifier_of (alias_or_index idx row) @ ''/distribution/file'')))]"
  by (simp add: dcat_row_def Let_def api_distribution_def file_distribution_def when_do_def
      dataset_uri_identifier_of)

text \<open>
  Claim C8. Each builder is a function of the table, and of nothing in it but the columns
  it reads: two tables of the same length whose rows agree on these columns, in
  particular the same table twice, give the same set of triples and the same sequence of
  flat records. The records follow the order of the rows, and every identifier in them, the
  dataset URI and the distribution URIs built on it, is a function of the alias when it is
  present and of the index otherwise.
\<close>

theorem builders_are_functions_of_the_columns_read:
  "(length df = length df'
      \<and> (\<forall>i<length df. \<forall>k \<in> set dublin_core_columns. (df ! i) k = (df' ! i) k) \<longrightarrow>
      create_dublin_core_graph df = create_dublin_core_graph df')
   \<and> (length df = length df'
      \<and> (\<forall>i<length df. \<forall>k \<in> set dcat_columns. (df ! i) k = (df' ! i) k) \<longrightarrow>
      create_dcat_graph df = create_dcat_graph df')
   \<and> create_dublin_core_graph df =
       (\<Union>i<length df. set (fst (dublin_core_row i (df ! i))),
        map (\<lambda>i. snd (dublin_core_row i (df ! i))) [0..<length df])
   \<and> create_dcat_graph df =
       (\<Union>i<length df. set (fst (dcat_row i (df ! i))),
        concat (map (\<lambda>i. snd (dcat_row i (df ! i))) [0..<length df]))
   \<and> dataset_uri idx row = identifier_of (alias_or_index idx row)
   \<and> map (\<lambda>r. map_of r ''dataset_uri'') (snd (create_dublin_core_graph df)) =
       map (\<lambda>i. Some (Str (identifier_of (alias_or_index i (df ! i))))) [0..<length df]
   \<and> map (\<lambda>r. (map_of r ''dataset_uri'', map_of r ''distribution_uri'')) (snd (dcat_row idx row)) =
       when_do (notna (row_get row ''datafile_url''))
         [(Some (Str (identifier_of (alias_or_index idx row))),
           Some (Str (identifier_of (alias_or_index idx row) @ ''/distribution/api'')))]
       @ when_do (notna (row_get row ''datafile''))
         [(Some (Str (identifier_of (alias_or_index idx row))),
           Some (Str (identifier_of (alias_or_index idx row) @ ''/distribution/file'')))]"
proof -
  have dc: "length df = length df'
      \<and> (\<forall>i<length df. \<forall>k \<in> set dublin_core_columns. (df ! i) k = (df' ! i) k) \<longrightarrow>
      create_dublin_core_graph df = create_dublin_core_graph df'"
  proof (intro impI, elim conjE)
    assume len: "length df = length df'"
      and agree: "\<forall>i<length df. \<forall>k \<in> set dublin_core_columns. (df ! i) k = (df' ! i) k"
    have rows: "dublin_core_row i (df ! i) = dublin_core_row i (df' ! i)" if "i < length df" for i
      using agree that by (intro dublin_core_row_cong) blast
    have g: "(\<Union>i<length df. set (fst (dublin_core_row i (df ! i))))
        = (\<Union>i<length df. set (fst (dublin_core_row i (df' ! i))))"
      using rows by simp
    have d: "map (\<lambda>i. snd (dublin_core_row i (df ! i))) [0..<length df]
        = map (\<lambda>i. snd (dublin_core_row i (df' ! i))) [0..<length df]"
      by (rule map_cong) (simp_all add: rows)
    show "create_dublin_core_graph df = create_dublin_core_graph df'"
      unfolding create_dublin_core_graph_by_index len [symmetric] g d ..
  qed
  have dcat: "length df = length df'
      \<and> (\<forall>i<length df. \<forall>k \<in> set dcat_columns. (df ! i) k = (df' ! i) k) \<longrightarrow>
      create_dcat_graph df = create_dcat_graph df'"
  proof (intro impI, elim conjE)
    assume len: "length df = length df'"
      and agree: "\<forall>i<length df. \<forall>k \<in> set dcat_columns. (df ! i) k = (df' ! i) k"
    have rows: "dcat_row i (df ! i) = dcat_row i (df' ! i)" if "i < length df" for i
      using agree that by (intro dcat_row_cong) blast
    have g: "(\<Union>i<length df. set (fst (dcat_row i (df ! i))))
        = (\<Union>i<length df. set (fst (dcat_row i (df' ! i))))"
      using rows by simp
    have d: "map (\<lambda>i. snd (dcat_row i (df ! i))) [0..<length df]
        = map (\<lambda>i. snd (dcat_row i (df' ! i))) [0..<length df]"
      by (rule map_cong) (simp_all add: rows)
    show "create_dcat_graph df = create_dcat_graph df'"
      unfolding create_dcat_graph_by_index len [symmetric] g d ..
  qed
  show ?thesis
    by (rule conjI [OF dc conjI [OF dcat conjI [OF create_dublin_core_graph_by_index
        conjI [OF create_dcat_graph_by_index conjI [OF dataset_uri_identifier_of
        conjI [OF dublin_core_record_identifiers dcat_record_identifiers]]]]]])
qed

theorem builders_are_functions_of_the_columns_read_witness:
  "[[''title'' \<mapsto> Str ''Rainfall'', ''remarks'' \<mapsto> Str ''draft'']]
     \<noteq> [[''title'' \<mapsto> Str ''Rainfall'', ''remarks'' \<mapsto> Str ''final'']]
   \<and> create_dublin_core_graph [[''title'' \<mapsto> Str ''Rainfall'', ''remarks'' \<mapsto> Str ''draft'']]
       = create_dublin_core_graph [[''title'' \<mapsto> Str ''Rainfall'', ''remarks'' \<mapsto> Str ''final'']]
   \<and> create_dcat_graph [[''title'' \<mapsto> Str ''Rainfall'', ''remarks'' \<mapsto> Str ''draft'']]
       = create_dcat_graph [[''title'' \<mapsto> Str ''Rainfall'', ''remarks'' \<mapsto> Str ''final'']]"
proof -
  define r1 :: row where "r1 = [''title'' \<mapsto> Str ''Rainfall'', ''remarks'' \<mapsto> Str ''draft'']"
  define r2 :: row where "r2 = [''title'' \<mapsto> Str ''Rainfall'', ''remarks'' \<mapsto> Str ''final'']"
  have "r1 ''remarks'' \<noteq> r2 ''remarks''"
    by (simp add: r1_def r2_def)
  then have "r1 \<noteq> r2" by auto
  then have diff: "[r1] \<noteq> [r2]" by simp
  have len: "length [r1] = length [r2]" by simp
  have dc: "\<forall>i<length [r1]. \<forall>k \<in> set dublin_core_columns. ([r1] ! i) k = ([r2] ! i) k"
    by (simp add: dublin_core_columns_def r1_def r2_def)
  have dcat: "\<forall>i<length [r1]. \<forall>k \<in> set dcat_columns. ([r1] ! i) k = ([r2] ! i) k"
    by (simp add: dcat_columns_def r1_def r2_def)
  from builders_are_functions_of_the_columns_read [of "[r1]" "[r2]"] len dc
  have e1: "create_dublin_core_graph [r1] = create_dublin_core_graph [r2]"
    by blast
  from builders_are_functions_of_the_columns_read [of "[r1]" "[r2]"] len dcat
  have e2: "create_dcat_graph [r1] = create_dcat_graph [r2]"
    by blast
  from diff e1 e2 show ?thesis
    unfolding r1_def r2_def by (intro conjI)
qed

end
